theory Spec2Isabelle
  imports Main "HOL-Library.Word"
begin

section \<open>The asynchronous HTTP client engine of cpp-netlib (http/v2/client/client.cpp)\<close>

text \<open>
  Field and member names of the source lose their trailing underscore (\<open>timedout_\<close> is
  \<open>timedout\<close>, \<open>request_\<close> is \<open>req\<close>).
  The engine is a chain of completion handlers. Every handler of \<open>client::impl\<close> is
  embedded as a function from the engine state (\<open>impl\<close>), the request context and the
  handler's arguments to the updated pair and the asynchronous operation it leaves
  outstanding. What the source does with its collaborators is recorded in logs:
  the operations issued on the connection, the calls of the progress callback, the
  number of \<open>timer_.cancel()\<close> calls. A handler that runs into undefined behaviour or
  into an exception nobody catches yields a \<open>fault\<close>.
\<close>

subsection \<open>Values\<close>

text \<open>\<open>boost::system::error_code\<close>: \<open>if (ec)\<close> holds for every value but \<open>no_error\<close>.\<close>

datatype error_code =
    no_error
  | asio_eof
  | asio_timed_out
  | asio_operation_aborted
  | other_error nat

text \<open>What \<open>std::promise::set_exception\<close> is given.\<close>

datatype exn =
    system_error error_code
  | client_exception_invalid_request

datatype fault =
    promise_already_satisfied
  | end_iterator_dereferenced
  | absent_host_dereferenced
  | string_iterator_out_of_range
  | uninitialised_status_read

datatype transfer_direction = bytes_written | bytes_read

type_synonym endpoint = nat

datatype connection_op =
    async_connect endpoint string
  | async_write string
  | async_read_until string
  | async_read
  | disconnect

record request =
  request_method :: string
  url_host :: "string option"
  url_port :: "16 word option"
  request_headers :: "(string \<times> string) list"
  payload :: string

record response =
  version :: string
  status :: "32 word"
  status_message :: string
  headers :: "(string \<times> string) list"
  body :: string

text \<open>Modelled from the spec: the setters of the response value, whose class is declared
  in response.hpp (the header list is ordered and keeps duplicates, the body is an ordered
  byte sequence).\<close>

definition new_response :: response where
  "new_response = \<lparr>version = [], status = 0, status_message = [], headers = [], body = []\<rparr>"

definition set_version :: "string \<Rightarrow> response \<Rightarrow> response" where
  "set_version v res = res\<lparr>version := v\<rparr>"

definition set_status :: "32 word \<Rightarrow> response \<Rightarrow> response" where
  "set_status n res = res\<lparr>status := n\<rparr>"

definition set_status_message :: "string \<Rightarrow> response \<Rightarrow> response" where
  "set_status_message m res = res\<lparr>status_message := m\<rparr>"

definition add_header :: "string \<Rightarrow> string \<Rightarrow> response \<Rightarrow> response" where
  "add_header k v res = res\<lparr>headers := headers res @ [(k, v)]\<rparr>"

definition append_body :: "string \<Rightarrow> response \<Rightarrow> response" where
  "append_body s res = res\<lparr>body := body res @ s\<rparr>"

text \<open>\<open>std::promise<response>\<close>: a second \<open>set_value\<close> or \<open>set_exception\<close> throws
  \<open>std::future_error\<close>, which no handler catches.\<close>

datatype promise = Unset | Value response | Exception exn

definition promise_set :: "promise \<Rightarrow> promise \<Rightarrow> fault + promise" where
  "promise_set p new = (case p of Unset \<Rightarrow> Inr new | _ \<Rightarrow> Inl promise_already_satisfied)"

record request_context =
  connection :: "connection_op list"
  req :: request
  options_progress :: bool
  progress_calls :: "(transfer_direction \<times> 64 word) list"
  response_promise :: promise
  request_buffer :: string
  response_buffer :: string
  total_bytes_written :: "64 word"
  total_bytes_read :: "64 word"

record impl =
  options_user_agent :: string
  options_timeout :: nat
  resolver_calls :: "(string \<times> 16 word) list"
  timedout :: bool
  timer_waiting :: bool
  timer_cancels :: nat

text \<open>The callback an asynchronous operation was given: the handler that its completion
  invokes, with the values the lambda captured.\<close>

datatype pending =
    to_connect
  | to_connect_lambda "endpoint list"
  | to_write_body
  | to_read_response
  | to_read_response_status
  | to_read_response_headers response
  | to_read_response_body response

type_synonym config = "impl \<times> request_context \<times> pending option"

definition and_then :: "fault + 'a \<Rightarrow> ('a \<Rightarrow> fault + 'b) \<Rightarrow> fault + 'b" where
  "and_then r f = (case r of Inl e \<Rightarrow> Inl e | Inr x \<Rightarrow> f x)"

definition terminal :: "fault + (impl \<times> request_context) \<Rightarrow> fault + config" where
  "terminal r = and_then r (\<lambda>(i, c). Inr (i, c, None))"

definition progress :: "transfer_direction \<Rightarrow> 64 word \<Rightarrow> request_context \<Rightarrow> request_context" where
  "progress d n c =
     (if options_progress c then c\<lparr>progress_calls := progress_calls c @ [(d, n)]\<rparr> else c)"

definition issue :: "connection_op \<Rightarrow> request_context \<Rightarrow> request_context" where
  "issue op c = c\<lparr>connection := connection c @ [op]\<rparr>"

subsection \<open>Streams over the buffers\<close>

definition CR :: char where "CR = CHR 0x0D"
definition LF :: char where "LF = CHR 0x0A"

definition isspace :: "char \<Rightarrow> bool" where
  "isspace ch \<longleftrightarrow> ch = CHR '' '' \<or> ch = CHR 0x09 \<or> ch = CHR 0x0A \<or> ch = CHR 0x0B
     \<or> ch = CHR 0x0C \<or> ch = CHR 0x0D"

definition isdigit :: "char \<Rightarrow> bool" where
  "isdigit ch \<longleftrightarrow> ch \<in> set ''0123456789''"

definition digit_value :: "char \<Rightarrow> int" where
  "digit_value ch = of_char ch - 48"

definition decimal :: "string \<Rightarrow> int" where
  "decimal ds = foldl (\<lambda>acc ch. 10 * acc + digit_value ch) 0 ds"

text \<open>A \<open>std::istream\<close> over a stream buffer: the unread characters and the two state
  bits the source depends on.\<close>

record istream =
  chars :: string
  eofbit :: bool
  failbit :: bool

definition istream_on :: "string \<Rightarrow> istream" where
  "istream_on buf = \<lparr>chars = buf, eofbit = False, failbit = False\<rparr>"

definition good :: "istream \<Rightarrow> bool" where
  "good s \<longleftrightarrow> \<not> eofbit s \<and> \<not> failbit s"

text \<open>\<open>is >> str\<close>: skips white space, then takes the characters up to the next white
  space. The string is left as it was when nothing can be extracted.\<close>

definition extract_string :: "string \<Rightarrow> istream \<Rightarrow> string \<times> istream" where
  "extract_string str s =
     (if \<not> good s then (str, s\<lparr>failbit := True\<rparr>)
      else let rest = dropWhile isspace (chars s) in
        if rest = [] then (str, s\<lparr>chars := [], eofbit := True, failbit := True\<rparr>)
        else let rest' = dropWhile (\<lambda>ch. \<not> isspace ch) rest in
          (takeWhile (\<lambda>ch. \<not> isspace ch) rest, s\<lparr>chars := rest', eofbit := (rest' = [])\<rparr>))"

text \<open>\<open>is >> n\<close> for an \<open>unsigned int\<close>: \<open>None\<close> when the variable is left untouched
  (the stream was not good, or ended in the white space), otherwise the value stored:
  0 when no digit follows, the largest value when the number does not fit.\<close>

definition extract_unsigned :: "istream \<Rightarrow> 32 word option \<times> istream" where
  "extract_unsigned s =
     (if \<not> good s then (None, s\<lparr>failbit := True\<rparr>)
      else let rest = dropWhile isspace (chars s) in
        if rest = [] then (None, s\<lparr>chars := [], eofbit := True, failbit := True\<rparr>)
        else let negative = (hd rest = CHR ''-'');
                 r1 = (if hd rest = CHR ''-'' \<or> hd rest = CHR ''+'' then tl rest else rest);
                 ds = takeWhile isdigit r1;
                 r2 = dropWhile isdigit r1
             in if ds = [] then (Some 0, s\<lparr>chars := r1, eofbit := (r1 = []), failbit := True\<rparr>)
                else if decimal ds \<ge> 2 ^ 32
                then (Some (- 1), s\<lparr>chars := r2, eofbit := (r2 = []), failbit := True\<rparr>)
                else (Some (if negative then - word_of_int (decimal ds) else word_of_int (decimal ds)),
                      s\<lparr>chars := r2, eofbit := (r2 = [])\<rparr>))"

text \<open>\<open>std::getline(is, str)\<close>: the characters up to the next line feed, which is taken
  from the stream and not stored.\<close>

definition getline :: "string \<Rightarrow> istream \<Rightarrow> string \<times> istream" where
  "getline str s =
     (if \<not> good s then (str, s\<lparr>failbit := True\<rparr>)
      else if chars s = [] then ([], s\<lparr>eofbit := True, failbit := True\<rparr>)
      else (takeWhile (\<lambda>ch. ch \<noteq> LF) (chars s),
            case dropWhile (\<lambda>ch. ch \<noteq> LF) (chars s) of
              [] \<Rightarrow> s\<lparr>chars := [], eofbit := True\<rparr>
            | _ # r \<Rightarrow> s\<lparr>chars := r\<rparr>))"

text \<open>\<open>boost::trim_copy\<close>: white space removed at both ends.\<close>

definition trim_copy :: "string \<Rightarrow> string" where
  "trim_copy m = rev (dropWhile isspace (rev (dropWhile isspace m)))"

subsection \<open>The handlers of \<open>client::impl\<close>\<close>

text \<open>The \<open>operator<<\<close> of the request is declared in request.hpp; the handlers take it
  as a parameter: the bytes it puts into the stream, and whether the stream is still good
  afterwards.\<close>

type_synonym serializer = "request \<Rightarrow> string \<times> bool"

definition set_error :: "error_code \<Rightarrow> impl \<Rightarrow> request_context \<Rightarrow> fault + (impl \<times> request_context)" where
  "set_error ec i c =
     and_then (promise_set (response_promise c) (Exception (system_error ec)))
       (\<lambda>p. Inr (i\<lparr>timer_cancels := Suc (timer_cancels i)\<rparr>, c\<lparr>response_promise := p\<rparr>))"

text \<open>Modelled from the spec: \<open>request::header\<close> and \<open>request::append_header\<close>
  (request.hpp), a lookup in and an append to the ordered header list.\<close>

definition execute :: "impl \<Rightarrow> request_context \<Rightarrow> config" where
  "execute i c =
     (let c1 = (if map_of (request_headers (req c)) ''User-Agent'' = None
                then c\<lparr>req := (req c)\<lparr>request_headers :=
                       request_headers (req c) @ [(''User-Agent'', options_user_agent i)]\<rparr>\<rparr>
                else c);
          host = (case url_host (req c1) of Some h \<Rightarrow> h | None \<Rightarrow> []);
          port = (case url_port (req c1) of Some p \<Rightarrow> p | None \<Rightarrow> 80);
          i1 = i\<lparr>resolver_calls := resolver_calls i @ [(host, port)]\<rparr>;
          i2 = (if 0 < options_timeout i1 then i1\<lparr>timer_waiting := True\<rparr> else i1)
      in (i2, c1, Some to_connect))"

definition timeout :: "error_code \<Rightarrow> impl \<Rightarrow> request_context \<Rightarrow> impl \<times> request_context" where
  "timeout ec i c = (i\<lparr>timedout := True\<rparr>, if ec = no_error then issue disconnect c else c)"

definition write_request :: "serializer \<Rightarrow> error_code \<Rightarrow> impl \<Rightarrow> request_context \<Rightarrow> fault + config" where
  "write_request ser ec i c =
     (if timedout i then terminal (set_error asio_timed_out i c)
      else if ec \<noteq> no_error then terminal (set_error ec i c)
      else case ser (req c) of (bytes, stream_good) \<Rightarrow>
        let c1 = c\<lparr>request_buffer := request_buffer c @ bytes\<rparr> in
        and_then
          (if \<not> stream_good
           then and_then (promise_set (response_promise c1) (Exception client_exception_invalid_request))
                  (\<lambda>p. Inr (i\<lparr>timer_cancels := Suc (timer_cancels i)\<rparr>, c1\<lparr>response_promise := p\<rparr>))
           else Inr (i, c1))
          (\<lambda>(i2, c2). Inr (i2, issue (async_write (request_buffer c2)) c2, Some to_write_body)))"

text \<open>The iterator over the resolved endpoints is the list of the endpoints not yet passed;
  the end iterator is the empty list, and dereferencing it is undefined.\<close>

definition connect :: "error_code \<Rightarrow> endpoint list \<Rightarrow> impl \<Rightarrow> request_context \<Rightarrow> fault + config" where
  "connect ec endpoint_iterator i c =
     (if ec \<noteq> no_error then terminal (set_error ec i c)
      else case endpoint_iterator of
        [] \<Rightarrow> Inl end_iterator_dereferenced
      | endpoint # _ \<Rightarrow>
          (case url_host (req c) of
             None \<Rightarrow> Inl absent_host_dereferenced
           | Some host \<Rightarrow>
               Inr (i, issue (async_connect endpoint host) c,
                    Some (to_connect_lambda endpoint_iterator))))"

text \<open>The callback that \<open>connect\<close> passes to \<open>async_connect\<close>.\<close>

definition connect_lambda ::
  "serializer \<Rightarrow> error_code \<Rightarrow> endpoint list \<Rightarrow> impl \<Rightarrow> request_context \<Rightarrow> fault + config" where
  "connect_lambda ser ec endpoint_iterator i c =
     (if ec \<noteq> no_error \<and> endpoint_iterator \<noteq> []
      then connect no_error (tl endpoint_iterator) i c
      else write_request ser ec i c)"

text \<open>A \<open>std::ostream\<close> constructed on a stream buffer is good.\<close>

definition ostream_on :: "string \<Rightarrow> bool" where
  "ostream_on buf = True"

text \<open>The end of \<open>write_body\<close>, from the test of the stream on: nothing is written to
  the stream before it (the source leaves the payload as a TODO).\<close>

definition write_body_stream :: "bool \<Rightarrow> impl \<Rightarrow> request_context \<Rightarrow> fault + config" where
  "write_body_stream stream_good i c =
     and_then
       (if \<not> stream_good
        then and_then (promise_set (response_promise c) (Exception client_exception_invalid_request))
               (\<lambda>p. Inr (i, c\<lparr>response_promise := p\<rparr>))
        else Inr (i, c))
       (\<lambda>(i2, c2). Inr (i2, issue (async_write (request_buffer c2)) c2, Some to_read_response))"

definition write_body :: "error_code \<Rightarrow> 64 word \<Rightarrow> impl \<Rightarrow> request_context \<Rightarrow> fault + config" where
  "write_body ec n i c =
     (if timedout i then terminal (set_error asio_timed_out i c)
      else if ec \<noteq> no_error then terminal (set_error ec i c)
      else let c1 = c\<lparr>total_bytes_written := total_bytes_written c + n\<rparr>;
               c2 = progress bytes_written (total_bytes_written c1) c1
           in write_body_stream (ostream_on (request_buffer c2)) i c2)"

definition read_response :: "error_code \<Rightarrow> 64 word \<Rightarrow> impl \<Rightarrow> request_context \<Rightarrow> fault + config" where
  "read_response ec n i c =
     (if timedout i then terminal (set_error asio_timed_out i c)
      else if ec \<noteq> no_error then terminal (set_error ec i c)
      else let c1 = c\<lparr>total_bytes_written := total_bytes_written c + n\<rparr>;
               c2 = progress bytes_written (total_bytes_written c1) c1
           in Inr (i, issue (async_read_until [CR, LF]) c2, Some to_read_response_status))"

text \<open>The status is an \<open>unsigned int\<close> without an initialiser: when the extraction leaves
  it untouched, the handler reads an indeterminate value.\<close>

definition read_response_status :: "error_code \<Rightarrow> impl \<Rightarrow> request_context \<Rightarrow> fault + config" where
  "read_response_status ec i c =
     (if timedout i then terminal (set_error asio_timed_out i c)
      else if ec \<noteq> no_error then terminal (set_error ec i c)
      else case extract_string [] (istream_on (response_buffer c)) of (ver, is1) \<Rightarrow>
           case extract_unsigned is1 of (st, is2) \<Rightarrow>
           case getline [] is2 of (message, is3) \<Rightarrow>
           (case st of
              None \<Rightarrow> Inl uninitialised_status_read
            | Some code \<Rightarrow>
                let res = set_status_message (trim_copy message)
                            (set_status code (set_version ver new_response));
                    c1 = c\<lparr>response_buffer := chars is3\<rparr>
                in Inr (i, issue (async_read_until [CR, LF, CR, LF]) c1,
                        Some (to_read_response_headers res))))"

subsection \<open>Response headers\<close>

text \<open>\<open>boost::find_first_of(header, ":")\<close> searches for an element of the character array
  \<open>":"\<close>, which Boost.Range takes with its terminating zero. An iterator into the header
  is the rest of the header from its position on.\<close>

definition is_delimiter :: "char \<Rightarrow> bool" where
  "is_delimiter ch \<longleftrightarrow> ch = CHR '':'' \<or> ch = CHR 0x00"

definition find_first_of :: "string \<Rightarrow> string" where
  "find_first_of header = dropWhile (\<lambda>ch. \<not> is_delimiter ch) header"

text \<open>\<open>while (*++delim == ' ') {}\<close>: the iterator is moved before it is read, and
  neither the move beyond the end nor the read at the end is defined.\<close>

fun skip_spaces :: "string \<Rightarrow> fault + string" where
  "skip_spaces [] = Inl string_iterator_out_of_range"
| "skip_spaces (_ # rest) =
     (case rest of
        [] \<Rightarrow> Inl string_iterator_out_of_range
      | ch # _ \<Rightarrow> if ch = CHR '' '' then skip_spaces rest else Inr rest)"

definition split_header :: "string \<Rightarrow> fault + (string \<times> string)" where
  "split_header header =
     (let delim = find_first_of header;
          key = take (length header - length delim) header
      in and_then (skip_spaces delim) (\<lambda>val. Inr (key, val)))"

function read_headers_loop :: "istream \<Rightarrow> response \<Rightarrow> fault + (istream \<times> response)" where
  "read_headers_loop s res =
     (case getline [] s of (header, s1) \<Rightarrow>
        if failbit s1 \<or> header = [CR] then Inr (s1, res)
        else (case split_header header of
                Inl f \<Rightarrow> Inl f
              | Inr (k, v) \<Rightarrow> read_headers_loop s1 (add_header k v res)))"
  by pat_completeness auto
termination
proof (relation "measure (\<lambda>(s, res). length (chars s))", goal_cases)
  case 1
  show ?case by simp
next
  case (2 s res x y)
  have le: "length (dropWhile (\<lambda>ch. ch \<noteq> LF) (chars s)) \<le> length (chars s)"
    by (rule length_dropWhile_le)
  from 2 have ne: "good s \<and> chars s \<noteq> []"
    by (auto simp: getline_def split: if_splits)
  with 2 have y: "y = (case dropWhile (\<lambda>ch. ch \<noteq> LF) (chars s) of
                         [] \<Rightarrow> s\<lparr>chars := [], eofbit := True\<rparr> | _ # r \<Rightarrow> s\<lparr>chars := r\<rparr>)"
    by (simp add: getline_def)
  show ?case
  proof (cases "dropWhile (\<lambda>ch. ch \<noteq> LF) (chars s)")
    case Nil
    with y ne show ?thesis by simp
  next
    case (Cons a r)
    with y le show ?thesis by simp
  qed
qed

definition read_response_headers ::
  "error_code \<Rightarrow> impl \<Rightarrow> request_context \<Rightarrow> response \<Rightarrow> fault + config" where
  "read_response_headers ec i c res =
     (if timedout i then terminal (set_error asio_timed_out i c)
      else if ec \<noteq> no_error then terminal (set_error ec i c)
      else and_then (read_headers_loop (istream_on (response_buffer c)) res)
             (\<lambda>(s1, res1).
                Inr (i, issue async_read (c\<lparr>response_buffer := chars s1\<rparr>),
                     Some (to_read_response_body res1))))"

subsection \<open>Response body\<close>

text \<open>\<open>getline_with_newline\<close> takes every character left in the stream buffer, and sets
  the end-of-file bit only when there was none.\<close>

definition getline_with_newline :: "istream \<Rightarrow> string \<times> istream" where
  "getline_with_newline s =
     (chars s, if chars s = [] then s\<lparr>eofbit := True\<rparr> else s\<lparr>chars := []\<rparr>)"

function append_lines :: "istream \<Rightarrow> response \<Rightarrow> istream \<times> response" where
  "append_lines s res =
     (case getline_with_newline s of (line, s1) \<Rightarrow>
        if eofbit s1 then (s1, res) else append_lines s1 (append_body line res))"
  by pat_completeness auto
termination
  by (relation "measure (\<lambda>(s, res). length (chars s))")
     (auto simp: getline_with_newline_def split: if_splits)

definition read_response_body ::
  "error_code \<Rightarrow> 64 word \<Rightarrow> impl \<Rightarrow> request_context \<Rightarrow> response \<Rightarrow> fault + config" where
  "read_response_body ec n i c res =
     (if timedout i then terminal (set_error asio_timed_out i c)
      else if ec \<noteq> no_error \<and> ec \<noteq> asio_eof then terminal (set_error ec i c)
      else let c1 = c\<lparr>total_bytes_read := total_bytes_read c + n\<rparr>;
               c2 = progress bytes_read (total_bytes_read c1) c1
           in if n = 0
              then terminal
                     (and_then (promise_set (response_promise c2) (Value res))
                        (\<lambda>p. Inr (i\<lparr>timer_cancels := Suc (timer_cancels i)\<rparr>,
                                   c2\<lparr>response_promise := p\<rparr>)))
              else case append_lines (istream_on (response_buffer c2)) res of (s1, res1) \<Rightarrow>
                     Inr (i, issue async_read (c2\<lparr>response_buffer := chars s1\<rparr>),
                          Some (to_read_response_body res1)))"

subsection \<open>The event loop\<close>

text \<open>What the resolver, the connection and the timer report back. A write reports the
  number of bytes it took from the request buffer; a read reports the bytes it put at the
  end of the response buffer. A completion is handed to the callback that waits for it;
  the timer's completion goes to \<open>timeout\<close> whenever a wait is outstanding.\<close>

datatype completion =
    resolved error_code "endpoint list"
  | connected error_code
  | written error_code nat
  | read_until_done error_code string
  | read_done error_code string
  | timer_done error_code

definition consume :: "nat \<Rightarrow> request_context \<Rightarrow> request_context" where
  "consume n c = c\<lparr>request_buffer := drop n (request_buffer c)\<rparr>"

definition commit :: "string \<Rightarrow> request_context \<Rightarrow> request_context" where
  "commit bytes c = c\<lparr>response_buffer := response_buffer c @ bytes\<rparr>"

fun deliver :: "serializer \<Rightarrow> completion \<Rightarrow> config \<Rightarrow> fault + config" where
  "deliver ser (timer_done ec) (i, c, p) =
     (if timer_waiting i
      then (case timeout ec (i\<lparr>timer_waiting := False\<rparr>) c of (i1, c1) \<Rightarrow> Inr (i1, c1, p))
      else Inr (i, c, p))"
| "deliver ser (resolved ec eps) (i, c, Some to_connect) = connect ec eps i c"
| "deliver ser (connected ec) (i, c, Some (to_connect_lambda it)) = connect_lambda ser ec it i c"
| "deliver ser (written ec n) (i, c, Some to_write_body) = write_body ec (of_nat n) i (consume n c)"
| "deliver ser (written ec n) (i, c, Some to_read_response) =
     read_response ec (of_nat n) i (consume n c)"
| "deliver ser (read_until_done ec bytes) (i, c, Some to_read_response_status) =
     read_response_status ec i (commit bytes c)"
| "deliver ser (read_until_done ec bytes) (i, c, Some (to_read_response_headers res)) =
     read_response_headers ec i (commit bytes c) res"
| "deliver ser (read_done ec bytes) (i, c, Some (to_read_response_body res)) =
     read_response_body ec (of_nat (length bytes)) i (commit bytes c) res"
| "deliver ser ev cfg = Inr cfg"

fun run :: "serializer \<Rightarrow> completion list \<Rightarrow> config \<Rightarrow> fault + config" where
  "run ser [] cfg = Inr cfg"
| "run ser (ev # evs) cfg =
     (case deliver ser ev cfg of Inl f \<Rightarrow> Inl f | Inr cfg1 \<Rightarrow> run ser evs cfg1)"

subsection \<open>The spec's account of headers and body\<close>

text \<open>The header pair in the spec's words: the key is everything before the first colon,
  the value everything after it without its leading spaces.\<close>

definition spec_header_pair :: "string \<Rightarrow> string \<times> string" where
  "spec_header_pair line =
     (takeWhile (\<lambda>ch. ch \<noteq> CHR '':'') line,
      dropWhile (\<lambda>ch. ch = CHR '' '') (tl (dropWhile (\<lambda>ch. ch \<noteq> CHR '':'') line)))"

text \<open>The lines on which \<open>split_header\<close> stays inside the string: a colon, no zero
  character before it, and after it a character that is not a space.\<close>

definition splittable :: "string \<Rightarrow> bool" where
  "splittable line \<longleftrightarrow>
     CHR '':'' \<in> set line
     \<and> CHR 0x00 \<notin> set (takeWhile (\<lambda>ch. ch \<noteq> CHR '':'') line)
     \<and> (\<exists>ch \<in> set (tl (dropWhile (\<lambda>ch. ch \<noteq> CHR '':'') line)). ch \<noteq> CHR '' '')"



text \<open>A configuration from the header stage on carries the status \<open>st\<close>: it is
  the status of the response that the outstanding callback holds and of the response in
  the promise, if there is one.\<close>

definition carries_status :: "32 word \<Rightarrow> config \<Rightarrow> bool" where
  "carries_status st cfg =
     (case cfg of (i, c, p) \<Rightarrow>
        (case response_promise c of Value r \<Rightarrow> status r = st | _ \<Rightarrow> True)
        \<and> (case p of
             None \<Rightarrow> True
           | Some (to_read_response_headers res) \<Rightarrow> status res = st
           | Some (to_read_response_body res) \<Rightarrow> status res = st
           | Some _ \<Rightarrow> False))"


subsection \<open>A request to run the engine on\<close>

definition example_impl :: impl where
  "example_impl = \<lparr>options_user_agent = ''cpp-netlib'', options_timeout = 50, resolver_calls = [],
     timedout = False, timer_waiting = False, timer_cancels = 0\<rparr>"

definition example_request :: request where
  "example_request = \<lparr>request_method = ''POST'', url_host = Some ''example.com'', url_port = None,
     request_headers = [], payload = ''hello''\<rparr>"

definition example_context :: request_context where
  "example_context = \<lparr>connection = [], req = example_request, options_progress = True,
     progress_calls = [], response_promise = Unset, request_buffer = [], response_buffer = [],
     total_bytes_written = 0, total_bytes_read = 0\<rparr>"

definition serialize_head :: serializer where
  "serialize_head r = (request_method r @ '' / HTTP/1.1'' @ [CR, LF, CR, LF], True)"

definition serialize_failing :: serializer where
  "serialize_failing r = ([], False)"

lemmas value_defs =
  new_response_def set_version_def set_status_def set_status_message_def add_header_def
  append_body_def promise_set_def and_then_def terminal_def progress_def issue_def
  CR_def LF_def isspace_def isdigit_def digit_value_def decimal_def istream_on_def good_def
  extract_string_def extract_unsigned_def getline_def trim_copy_def

lemmas handler_defs =
  set_error_def execute_def timeout_def write_request_def connect_def connect_lambda_def
  ostream_on_def write_body_stream_def write_body_def read_response_def
  read_response_status_def is_delimiter_def find_first_of_def split_header_def
  read_response_headers_def getline_with_newline_def read_response_body_def
  consume_def commit_def

lemmas example_defs =
  example_impl_def example_request_def example_context_def serialize_head_def
  serialize_failing_def

section \<open>Properties of the engine\<close>

subsection \<open>Fulfilment of the promise\<close>

text \<open>
  C1. The promise of a request is to be fulfilled exactly once on every path, also when
  the serialization fails in \<open>write_request\<close> and the write is issued all the same.
  The source sets the exception there and does not return: the write is issued with the
  promise already fulfilled, the chain goes on, and whatever ends it, a transport error
  or the end of the body, fulfils the promise a second time, which
  \<open>std::promise\<close> answers with an exception.
\<close>

theorem write_request_failure_fulfils_twice:
  "(case run serialize_failing [resolved no_error [1], connected no_error]
           (execute example_impl example_context) of
      Inr (i, c, p) \<Rightarrow>
        response_promise c = Exception client_exception_invalid_request
        \<and> connection c = [async_connect 1 ''example.com'', async_write []]
        \<and> p = Some to_write_body
    | Inl f \<Rightarrow> False)
   \<and> run serialize_failing [resolved no_error [1], connected no_error, written (other_error 104) 0]
         (execute example_impl example_context) = Inl promise_already_satisfied
   \<and> run serialize_failing
         [resolved no_error [1], connected no_error, written no_error 0, written no_error 0,
          read_until_done no_error (''HTTP/1.1 200 OK'' @ [CR, LF]),
          read_until_done no_error [CR, LF], read_done asio_eof []]
         (execute example_impl example_context) = Inl promise_already_satisfied"
  by (simp add: value_defs handler_defs example_defs)

subsection \<open>Connecting\<close>

text \<open>
  C3. A failed connect moves on to the next endpoint in the order of the list, and once
  every endpoint has failed the request is to end with an error. The callback of
  \<open>async_connect\<close> compares the iterator it has just used with the end, not the next
  one: after the last endpoint has failed, \<open>connect\<close> is called with the end iterator
  and dereferences it, and no error reaches the promise.
\<close>

theorem exhausted_candidates_dereference_end:
  "(case run serialize_head [resolved no_error [1, 2], connected (other_error 111)]
           (execute example_impl example_context) of
      Inr (i, c, p) \<Rightarrow>
        connection c = [async_connect 1 ''example.com'', async_connect 2 ''example.com'']
        \<and> p = Some (to_connect_lambda [2]) \<and> response_promise c = Unset
    | Inl f \<Rightarrow> False)
   \<and> run serialize_head
         [resolved no_error [1, 2], connected (other_error 111), connected (other_error 111)]
         (execute example_impl example_context) = Inl end_iterator_dereferenced"
  by (simp add: value_defs handler_defs example_defs)

text \<open>For every list of endpoints: as long as an endpoint is left, a failed connect is
  followed by the connect to the next one, each endpoint once and in the order of the list;
  after as many failures as there are endpoints the end iterator is dereferenced.\<close>

lemma failed_connect_moves_on:
  assumes "url_host (req c) = Some host"
  shows "deliver ser (connected (other_error e)) (i, c, Some (to_connect_lambda (x # y # it)))
           = Inr (i, issue (async_connect y host) c, Some (to_connect_lambda (y # it)))"
  using assms by (simp add: connect_lambda_def connect_def)

lemma failover_in_list_order:
  assumes "url_host (req c) = Some host" and "k < length it"
  shows "run ser (replicate k (connected (other_error e))) (i, c, Some (to_connect_lambda it))
           = Inr (i, c\<lparr>connection := connection c @ map (\<lambda>ep. async_connect ep host) (take k (tl it))\<rparr>,
                  Some (to_connect_lambda (drop k it)))"
  using assms
proof (induction k arbitrary: c it)
  case 0
  then show ?case by simp
next
  case (Suc k)
  then obtain x y rest where it: "it = x # y # rest"
    by (cases it; cases "tl it") auto
  have d: "deliver ser (connected (other_error e)) (i, c, Some (to_connect_lambda (x # y # rest)))
           = Inr (i, issue (async_connect y host) c, Some (to_connect_lambda (y # rest)))"
    using Suc.prems(1) by (rule failed_connect_moves_on)
  have "run ser (replicate k (connected (other_error e)))
          (i, issue (async_connect y host) c, Some (to_connect_lambda (y # rest)))
        = Inr (i, (issue (async_connect y host) c)
                    \<lparr>connection := connection (issue (async_connect y host) c)
                       @ map (\<lambda>ep. async_connect ep host) (take k (tl (y # rest)))\<rparr>,
               Some (to_connect_lambda (drop k (y # rest))))"
    using Suc.prems by (intro Suc.IH) (simp_all add: issue_def it)
  with d show ?case
    by (simp add: it issue_def del: deliver.simps)
qed

lemma every_exhaustion_dereferences_end:
  assumes "url_host (req c) = Some host" and "it \<noteq> []"
  shows "run ser (replicate (length it) (connected (other_error e)))
           (i, c, Some (to_connect_lambda it)) = Inl end_iterator_dereferenced"
proof -
  obtain k where k: "length it = Suc k"
    using assms(2) by (cases it) auto
  then have lt: "k < length it"
    by simp
  have last: "drop k it = [last it]"
    using k assms(2)
    by (metis append_butlast_last_id append_eq_conv_conj diff_Suc_1 length_butlast)
  have split: "replicate (length it) (connected (other_error e))
      = replicate k (connected (other_error e)) @ [connected (other_error e)]"
    by (simp add: k replicate_append_same)
  have run_append: "\<And>xs ys cfg cfg1. run ser xs cfg = Inr cfg1 \<Longrightarrow>
      run ser (xs @ ys) cfg = run ser ys cfg1"
  proof -
    fix xs ys cfg cfg1
    show "run ser xs cfg = Inr cfg1 \<Longrightarrow> run ser (xs @ ys) cfg = run ser ys cfg1"
      by (induction xs arbitrary: cfg) (auto split: sum.splits simp del: deliver.simps)
  qed
  show ?thesis
    unfolding split
    by (subst run_append [OF failover_in_list_order [OF assms(1) lt]])
       (simp add: last connect_lambda_def connect_def)
qed

subsection \<open>Writing the body\<close>

text \<open>
  C4. \<open>write_body\<close> is to send the payload of the request. It puts nothing into the
  request buffer (the source marks the place with a TODO): after the head has been
  written, the second write is issued on the empty buffer, whatever the payload is.
\<close>

theorem write_body_sends_no_payload:
  "(case run serialize_head [resolved no_error [1], connected no_error, written no_error 19]
           (execute example_impl example_context) of
      Inr (i, c, p) \<Rightarrow>
        payload (req c) = ''hello''
        \<and> connection c = [async_connect 1 ''example.com'',
                          async_write (''POST / HTTP/1.1'' @ [CR, LF, CR, LF]), async_write []]
        \<and> p = Some to_read_response
    | Inl f \<Rightarrow> False)"
  by (simp add: value_defs handler_defs example_defs)


subsection \<open>The timed-out flag\<close>

text \<open>
  C2, as the spec has it: every stage, Connecting included, starts with the test of the
  timed-out flag. \<open>connect\<close> and the callback it gives to \<open>async_connect\<close> never
  read the flag: with the flag set, a connect is issued, and a failed connect is followed
  by the next endpoint.
\<close>

theorem connect_ignores_timedout_counterexample:
  "timedout (example_impl\<lparr>timedout := True\<rparr>)
   \<and> connect no_error [1, 2] (example_impl\<lparr>timedout := True\<rparr>) example_context
       = Inr (example_impl\<lparr>timedout := True\<rparr>,
              issue (async_connect 1 ''example.com'') example_context,
              Some (to_connect_lambda [1, 2]))
   \<and> response_promise (issue (async_connect 1 ''example.com'') example_context) = Unset
   \<and> connect_lambda serialize_head (other_error 111) [1, 2]
         (example_impl\<lparr>timedout := True\<rparr>) example_context
       = Inr (example_impl\<lparr>timedout := True\<rparr>,
              issue (async_connect 2 ''example.com'') example_context,
              Some (to_connect_lambda [2]))"
  by (simp add: value_defs handler_defs example_defs)

lemma set_error_unset:
  "response_promise c = Unset \<Longrightarrow>
   terminal (set_error ec i c)
     = Inr (i\<lparr>timer_cancels := Suc (timer_cancels i)\<rparr>,
            c\<lparr>response_promise := Exception (system_error ec)\<rparr>, None)"
  by (simp add: terminal_def set_error_def and_then_def promise_set_def)

text \<open>
  C2, amended: the six handlers that follow the connect, \<open>write_request\<close>,
  \<open>write_body\<close>, \<open>read_response\<close>, \<open>read_response_status\<close>,
  \<open>read_response_headers\<close> and \<open>read_response_body\<close>, start with the test of the
  flag; when it is set they do nothing but \<open>set_error\<close> with the timed-out code,
  whatever error code and byte count the completed operation reports, and issue no further
  operation. With the promise still unset that is the timeout error in the promise and the
  timer cancelled.
\<close>

theorem timedout_short_circuits:
  assumes "timedout i"
  shows "write_request ser ec i c = terminal (set_error asio_timed_out i c)
       \<and> write_body ec n i c = terminal (set_error asio_timed_out i c)
       \<and> read_response ec n i c = terminal (set_error asio_timed_out i c)
       \<and> read_response_status ec i c = terminal (set_error asio_timed_out i c)
       \<and> read_response_headers ec i c res = terminal (set_error asio_timed_out i c)
       \<and> read_response_body ec n i c res = terminal (set_error asio_timed_out i c)
       \<and> (response_promise c = Unset \<longrightarrow>
            terminal (set_error asio_timed_out i c)
              = Inr (i\<lparr>timer_cancels := Suc (timer_cancels i)\<rparr>,
                     c\<lparr>response_promise := Exception (system_error asio_timed_out)\<rparr>, None))"
  using assms
  by (simp add: write_request_def write_body_def read_response_def read_response_status_def
      read_response_headers_def read_response_body_def set_error_unset)

text \<open>The six handlers at a context with the flag set and the promise unset.\<close>

theorem timedout_short_circuits_witness:
  "timedout (example_impl\<lparr>timedout := True\<rparr>)
   \<and> response_promise example_context = Unset
   \<and> write_body no_error 19 (example_impl\<lparr>timedout := True\<rparr>) example_context
       = Inr (example_impl\<lparr>timedout := True, timer_cancels := 1\<rparr>,
              example_context\<lparr>response_promise := Exception (system_error asio_timed_out)\<rparr>, None)
   \<and> read_response_body asio_eof 0 (example_impl\<lparr>timedout := True\<rparr>) example_context new_response
       = Inr (example_impl\<lparr>timedout := True, timer_cancels := 1\<rparr>,
              example_context\<lparr>response_promise := Exception (system_error asio_timed_out)\<rparr>, None)"
  using timedout_short_circuits [of "example_impl\<lparr>timedout := True\<rparr>" serialize_head no_error
      example_context 19 new_response]
    timedout_short_circuits [of "example_impl\<lparr>timedout := True\<rparr>" serialize_head asio_eof
      example_context 0 new_response]
  by (simp add: example_defs)

text \<open>No handler changes the flag but \<open>timeout\<close>, which sets it.\<close>

lemma set_error_flag:
  "terminal (set_error ec i c) = Inr (i1, c1, p1) \<Longrightarrow> timedout i1 = timedout i"
  by (auto simp: terminal_def set_error_def and_then_def promise_set_def split: promise.splits)

lemma write_request_flag:
  "write_request ser ec i c = Inr (i1, c1, p1) \<Longrightarrow> timedout i1 = timedout i"
  by (auto simp: write_request_def and_then_def promise_set_def Let_def
      split: if_splits prod.splits promise.splits sum.splits dest: set_error_flag)

lemma connect_flag:
  "connect ec it i c = Inr (i1, c1, p1) \<Longrightarrow> timedout i1 = timedout i"
  by (auto simp: connect_def split: if_splits list.splits option.splits dest: set_error_flag)

lemma connect_lambda_flag:
  "connect_lambda ser ec it i c = Inr (i1, c1, p1) \<Longrightarrow> timedout i1 = timedout i"
  by (auto simp: connect_lambda_def split: if_splits dest: connect_flag write_request_flag)

lemma write_body_flag:
  "write_body ec n i c = Inr (i1, c1, p1) \<Longrightarrow> timedout i1 = timedout i"
  by (auto simp: write_body_def write_body_stream_def ostream_on_def and_then_def Let_def
      split: if_splits dest: set_error_flag)

lemma read_response_flag:
  "read_response ec n i c = Inr (i1, c1, p1) \<Longrightarrow> timedout i1 = timedout i"
  by (auto simp: read_response_def Let_def split: if_splits dest: set_error_flag)

lemma read_response_status_flag:
  "read_response_status ec i c = Inr (i1, c1, p1) \<Longrightarrow> timedout i1 = timedout i"
  by (auto simp: read_response_status_def Let_def
      split: if_splits prod.splits option.splits dest: set_error_flag)

lemma read_response_headers_flag:
  "read_response_headers ec i c res = Inr (i1, c1, p1) \<Longrightarrow> timedout i1 = timedout i"
  by (auto simp: read_response_headers_def and_then_def
      split: if_splits sum.splits dest: set_error_flag)

lemma read_response_body_flag:
  "read_response_body ec n i c res = Inr (i1, c1, p1) \<Longrightarrow> timedout i1 \<or> \<not> timedout i"
  by (auto simp: read_response_body_def terminal_def and_then_def promise_set_def set_error_def
      Let_def simp del: append_lines.simps split: if_splits prod.splits promise.splits)

lemma deliver_flag:
  "deliver ser ev (i, c, p) = Inr (i1, c1, p1) \<Longrightarrow> timedout i \<Longrightarrow> timedout i1"
proof (cases "(ser, ev, (i, c, p))" rule: deliver.cases)
qed (auto simp: timeout_def split: if_splits
     dest: connect_flag connect_lambda_flag write_body_flag read_response_flag
       read_response_status_flag read_response_headers_flag read_response_body_flag)

lemma run_flag:
  "run ser evs (i, c, p) = Inr (i1, c1, p1) \<Longrightarrow> timedout i \<Longrightarrow> timedout i1"
proof (induction evs arbitrary: i c p)
  case Nil
  then show ?case by simp
next
  case (Cons ev evs)
  then obtain i2 c2 p2 where d: "deliver ser ev (i, c, p) = Inr (i2, c2, p2)"
    and r: "run ser evs (i2, c2, p2) = Inr (i1, c1, p1)"
    by (auto split: sum.splits)
  from d Cons.prems(2) have "timedout i2" by (rule deliver_flag)
  with r show ?case by (rule Cons.IH)
qed

text \<open>
  C9. \<open>timeout\<close> sets the flag whatever error code the wait completes with, the
  cancellation of a finished request included; only the disconnect depends on the error
  code. The flag is a field of the engine, not of the request context: the handlers of
  every request read it (here \<open>write_request\<close> for any context), starting a request
  does not touch it, and no sequence of completions brings it back to false.
\<close>

theorem timeout_sets_shared_flag:
  "timedout (fst (timeout ec i c))
   \<and> snd (timeout ec i c) = (if ec = no_error then issue disconnect c else c)
   \<and> write_request ser ec2 (fst (timeout ec i c)) c2
       = terminal (set_error asio_timed_out (fst (timeout ec i c)) c2)
   \<and> timedout (fst (execute j c2)) = timedout j
   \<and> (timedout j \<and> run ser evs (j, c2, p) = Inr (j1, c3, p1) \<longrightarrow> timedout j1)"
  by (auto simp: timeout_def write_request_def execute_def Let_def dest: run_flag)

text \<open>The wait cancelled after a finished request sets the flag without a disconnect, and
  the flag stays set through the handlers.\<close>

theorem timeout_sets_shared_flag_witness:
  "timedout (fst (timeout asio_operation_aborted example_impl example_context))
   \<and> snd (timeout asio_operation_aborted example_impl example_context) = example_context
   \<and> snd (timeout no_error example_impl example_context)
       = example_context\<lparr>connection := [disconnect]\<rparr>
   \<and> timedout (example_impl\<lparr>timedout := True\<rparr>)
   \<and> run serialize_head [written no_error 0]
         (example_impl\<lparr>timedout := True\<rparr>, example_context, Some to_write_body)
       = Inr (example_impl\<lparr>timedout := True, timer_cancels := 1\<rparr>,
              example_context\<lparr>response_promise := Exception (system_error asio_timed_out)\<rparr>,
              None)
   \<and> timedout (example_impl\<lparr>timedout := True, timer_cancels := 1\<rparr>)"
  using timeout_sets_shared_flag [of asio_operation_aborted example_impl example_context
      serialize_head no_error example_context "example_impl\<lparr>timedout := True\<rparr>"
      "[written no_error 0]" "Some to_write_body"
      "example_impl\<lparr>timedout := True, timer_cancels := 1\<rparr>"
      "example_context\<lparr>response_promise := Exception (system_error asio_timed_out)\<rparr>" None]
  by (simp add: example_defs value_defs handler_defs)

subsection \<open>End of file while reading the body\<close>

lemma append_lines_all:
  "append_lines (istream_on buf) res
     = (\<lparr>chars = [], eofbit = True, failbit = False\<rparr>, res\<lparr>body := body res @ buf\<rparr>)"
proof (cases "buf = []")
  case True
  then show ?thesis
    by (subst append_lines.simps) (simp add: getline_with_newline_def istream_on_def)
next
  case False
  then show ?thesis
    by (subst append_lines.simps, subst append_lines.simps)
       (simp add: getline_with_newline_def istream_on_def append_body_def)
qed

text \<open>
  C10. In \<open>read_response_body\<close> the end-of-file code is no error: the handler does with
  it exactly what it does without an error code. With no bytes the promise gets the
  response and the timer is cancelled; with bytes the counter and the progress callback are
  updated, the bytes are appended to the body, and the next read is issued.
\<close>

theorem eof_read_is_normal_read:
  "read_response_body asio_eof n i c res = read_response_body no_error n i c res
   \<and> deliver ser (read_done asio_eof bytes) (i, c, Some (to_read_response_body res))
       = deliver ser (read_done no_error bytes) (i, c, Some (to_read_response_body res))
   \<and> (\<not> timedout i \<and> response_promise c = Unset \<longrightarrow>
        read_response_body asio_eof 0 i c res
          = Inr (i\<lparr>timer_cancels := Suc (timer_cancels i)\<rparr>,
                 (progress bytes_read (total_bytes_read c) c)\<lparr>response_promise := Value res\<rparr>,
                 None))
   \<and> (\<not> timedout i \<and> bytes \<noteq> [] \<and> length bytes < 2 ^ 64 \<longrightarrow>
        deliver ser (read_done asio_eof bytes) (i, c, Some (to_read_response_body res))
          = Inr (i,
                 issue async_read
                   ((progress bytes_read (total_bytes_read c + of_nat (length bytes))
                       (c\<lparr>total_bytes_read := total_bytes_read c + of_nat (length bytes)\<rparr>))
                    \<lparr>response_buffer := []\<rparr>),
                 Some (to_read_response_body (res\<lparr>body := body res @ response_buffer c @ bytes\<rparr>))))"
proof (intro conjI impI)
  show "read_response_body asio_eof n i c res = read_response_body no_error n i c res"
    by (simp add: read_response_body_def)
  then show "deliver ser (read_done asio_eof bytes) (i, c, Some (to_read_response_body res))
       = deliver ser (read_done no_error bytes) (i, c, Some (to_read_response_body res))"
    by (simp add: read_response_body_def)
next
  assume "\<not> timedout i \<and> response_promise c = Unset"
  then show "read_response_body asio_eof 0 i c res
          = Inr (i\<lparr>timer_cancels := Suc (timer_cancels i)\<rparr>,
                 (progress bytes_read (total_bytes_read c) c)\<lparr>response_promise := Value res\<rparr>,
                 None)"
    by (simp add: read_response_body_def terminal_def and_then_def promise_set_def progress_def)
next
  assume a: "\<not> timedout i \<and> bytes \<noteq> [] \<and> length bytes < 2 ^ 64"
  then have nz: "(of_nat (length bytes) :: 64 word) \<noteq> 0"
    by (intro of_nat_neq_0) simp_all
  from a nz show "deliver ser (read_done asio_eof bytes) (i, c, Some (to_read_response_body res))
          = Inr (i,
                 issue async_read
                   ((progress bytes_read (total_bytes_read c + of_nat (length bytes))
                       (c\<lparr>total_bytes_read := total_bytes_read c + of_nat (length bytes)\<rparr>))
                    \<lparr>response_buffer := []\<rparr>),
                 Some (to_read_response_body (res\<lparr>body := body res @ response_buffer c @ bytes\<rparr>)))"
    by (simp add: read_response_body_def commit_def progress_def issue_def append_lines_all
        del: append_lines.simps)
qed

text \<open>An end-of-file completion without bytes, and one that carries two bytes.\<close>

theorem eof_read_is_normal_read_witness:
  "\<not> timedout example_impl \<and> response_promise example_context = Unset
   \<and> ''cd'' \<noteq> [] \<and> length ''cd'' < (2::nat) ^ 64
   \<and> read_response_body asio_eof 0 example_impl example_context new_response
       = Inr (example_impl\<lparr>timer_cancels := 1\<rparr>,
              example_context\<lparr>progress_calls := [(bytes_read, 0)],
                               response_promise := Value new_response\<rparr>, None)
   \<and> deliver serialize_head (read_done asio_eof ''cd'')
         (example_impl, example_context\<lparr>response_buffer := ''ab''\<rparr>,
          Some (to_read_response_body new_response))
       = Inr (example_impl,
              example_context\<lparr>connection := [async_read], progress_calls := [(bytes_read, 2)],
                               total_bytes_read := 2\<rparr>,
              Some (to_read_response_body (new_response\<lparr>body := ''abcd''\<rparr>)))"
  using eof_read_is_normal_read [of 0 example_impl example_context new_response
      serialize_head "''cd''"]
    eof_read_is_normal_read [of 0 example_impl "example_context\<lparr>response_buffer := ''ab''\<rparr>"
      new_response serialize_head "''cd''"]
  by (simp add: example_defs value_defs handler_defs append_lines_all del: append_lines.simps)

subsection \<open>Cancelling the timer\<close>













text \<open>The branch of \<open>write_body\<close> for a failed stream would set the exception and
  leave the timer alone. No run takes it: the stream that \<open>write_body\<close> tests has
  just been constructed and nothing has been written to it.\<close>

lemma write_body_stream_failed_branch:
  "write_body_stream False example_impl example_context
     = Inr (example_impl,
            example_context\<lparr>connection := [async_write []],
              response_promise := Exception client_exception_invalid_request\<rparr>,
            Some to_read_response)"
  by (simp add: example_defs value_defs handler_defs)

subsection \<open>Splitting the header lines\<close>

text \<open>
  C5. Every header line that is not blank is to be split at its first colon into key and
  value, and the line \<open>Content-Type:  text/plain\<close> is to give the value
  \<open>text/plain\<close>. On a line without a colon \<open>find_first_of\<close> returns the end of the
  line and the loop over the spaces moves the iterator beyond it: no pair is made and the
  handler does not return. And what \<open>std::getline\<close> hands over of a line that ends
  in CR LF still has the carriage return, which stays in the value.
\<close>

theorem header_line_without_colon_faults:
  "split_header (''X-Broken'' @ [CR]) = Inl string_iterator_out_of_range
   \<and> read_response_headers no_error example_impl
         (example_context\<lparr>response_buffer := ''X-Broken'' @ [CR, LF, CR, LF]\<rparr>) new_response
       = Inl string_iterator_out_of_range
   \<and> read_response_headers no_error example_impl
         (example_context\<lparr>response_buffer := ''Content-Type:  text/plain'' @ [CR, LF, CR, LF]\<rparr>)
         new_response
       = Inr (example_impl, example_context\<lparr>connection := [async_read]\<rparr>,
              Some (to_read_response_body
                      (new_response\<lparr>headers := [(''Content-Type'', ''text/plain'' @ [CR])]\<rparr>)))"
  by (simp add: value_defs handler_defs example_defs)

text \<open>What does hold: on the lines that have a colon, no zero character before it and
  a character other than a space after it, the split is the one the spec describes, and
  the pairs are appended in the order of the lines, duplicates included.\<close>

lemma find_first_of_colon:
  "CHR 0x00 \<notin> set (takeWhile (\<lambda>ch. ch \<noteq> CHR '':'') line) \<Longrightarrow>
   find_first_of line = dropWhile (\<lambda>ch. ch \<noteq> CHR '':'') line"
  by (induction line) (auto simp: find_first_of_def is_delimiter_def)

lemma skip_spaces_run:
  "\<exists>ch \<in> set rest. ch \<noteq> CHR '' '' \<Longrightarrow>
   skip_spaces (x # rest) = Inr (dropWhile (\<lambda>ch. ch = CHR '' '') rest)"
  by (induction rest arbitrary: x) auto

lemma split_header_spec:
  assumes "splittable line"
  shows "split_header line = Inr (spec_header_pair line)"
proof -
  let ?delim = "dropWhile (\<lambda>ch. ch \<noteq> CHR '':'') line"
  from assms have f: "find_first_of line = ?delim"
    by (simp add: splittable_def find_first_of_colon)
  from assms have "?delim \<noteq> []"
    by (auto simp: splittable_def)
  then obtain x rest where d: "?delim = x # rest"
    by (cases ?delim) auto
  with assms have sp: "\<exists>ch \<in> set rest. ch \<noteq> CHR '' ''"
    by (simp add: splittable_def)
  have "length line - length ?delim = length (takeWhile (\<lambda>ch. ch \<noteq> CHR '':'') line)"
  proof -
    have "length (takeWhile (\<lambda>ch. ch \<noteq> CHR '':'') line @ ?delim) = length line"
      by simp
    then show ?thesis
      by (simp only: length_append)
  qed
  then have k: "take (length line - length ?delim) line = takeWhile (\<lambda>ch. ch \<noteq> CHR '':'') line"
    by (metis append_eq_conv_conj takeWhile_dropWhile_id)
  show ?thesis
    unfolding split_header_def Let_def f k
    by (simp add: d skip_spaces_run [OF sp] and_then_def spec_header_pair_def
        del: skip_spaces.simps)
qed

lemma getline_line:
  assumes "LF \<notin> set l"
  shows "getline str (istream_on (l @ LF # tail)) = (l, istream_on tail)"
proof -
  from assms have "takeWhile (\<lambda>ch. ch \<noteq> LF) (l @ LF # tail) = l"
    and "dropWhile (\<lambda>ch. ch \<noteq> LF) (l @ LF # tail) = LF # tail"
    by (induction l) auto
  then show ?thesis
    by (simp add: getline_def istream_on_def good_def)
qed

lemma read_headers_loop_lines:
  assumes "\<forall>l \<in> set ls. splittable l \<and> LF \<notin> set l"
  shows "read_headers_loop (istream_on (concat (map (\<lambda>l. l @ [LF]) ls) @ [CR, LF] @ rest)) res
           = Inr (istream_on rest, res\<lparr>headers := headers res @ map spec_header_pair ls\<rparr>)"
  using assms
proof (induction ls arbitrary: res)
  case Nil
  have "getline [] (istream_on ([CR] @ LF # rest)) = ([CR], istream_on rest)"
    by (rule getline_line) (simp add: CR_def LF_def)
  then show ?case
    by (subst read_headers_loop.simps) (simp add: istream_on_def)
next
  case (Cons l ls)
  then have l: "splittable l" "LF \<notin> set l"
    by simp_all
  let ?tail = "concat (map (\<lambda>l. l @ [LF]) ls) @ [CR, LF] @ rest"
  have g: "getline [] (istream_on (l @ LF # ?tail)) = (l, istream_on ?tail)"
    using l(2) by (rule getline_line)
  from l(1) have ncr: "l \<noteq> [CR]"
    by (auto simp: splittable_def CR_def)
  have ih: "read_headers_loop (istream_on ?tail) (add_header (fst (spec_header_pair l)) (snd (spec_header_pair l)) res)
     = Inr (istream_on rest,
         (add_header (fst (spec_header_pair l)) (snd (spec_header_pair l)) res)
           \<lparr>headers := headers (add_header (fst (spec_header_pair l)) (snd (spec_header_pair l)) res)
                @ map spec_header_pair ls\<rparr>)"
    using Cons.prems by (intro Cons.IH) simp
  show ?case
    apply (subst read_headers_loop.simps)
    using g ncr ih
    by (simp add: split_header_spec [OF l(1)] add_header_def istream_on_def
        del: read_headers_loop.simps)
qed

lemma header_lines_split_at_first_colon:
  assumes "\<not> timedout i"
    and "\<forall>line \<in> set ls. splittable line \<and> LF \<notin> set line"
    and "response_buffer c = concat (map (\<lambda>l. l @ [LF]) ls) @ [CR, LF] @ rest"
  shows "read_response_headers no_error i c res
           = Inr (i, issue async_read (c\<lparr>response_buffer := rest\<rparr>),
                  Some (to_read_response_body
                          (res\<lparr>headers := headers res @ map spec_header_pair ls\<rparr>)))"
  using assms(1,3) read_headers_loop_lines [OF assms(2), of rest res]
  by (simp add: read_response_headers_def and_then_def istream_on_def
      del: read_headers_loop.simps)

subsection \<open>Reading the body\<close>









subsection \<open>The status code\<close>

text \<open>
  C8, as the spec has it: the status code of a delivered response lies between 100 and
  599. \<open>read_response_status\<close> stores the number it reads without a test: the status
  line \<open>HTTP/1.1 999 Nope\<close> delivers a response with the status 999.
\<close>

theorem status_out_of_range_counterexample:
  "(case run serialize_head
           [read_until_done no_error (''HTTP/1.1 999 Nope'' @ [CR, LF]),
            read_until_done no_error [CR, LF], read_done asio_eof []]
           (example_impl, example_context, Some to_read_response_status) of
      Inr (i, c, p) \<Rightarrow>
        response_promise c = Value \<lparr>version = ''HTTP/1.1'', status = 999, status_message = ''Nope'',
                                    headers = [], body = []\<rparr>
    | Inl f \<Rightarrow> False)
   \<and> \<not> ((100 :: 32 word) \<le> 999 \<and> (999 :: 32 word) \<le> 599)"
  by (simp add: value_defs handler_defs example_defs)

lemma takeWhile_until:
  "\<forall>x \<in> set xs. P x \<Longrightarrow> \<not> P y \<Longrightarrow> takeWhile P (xs @ y # ys) = xs"
  by (induction xs) auto

lemma dropWhile_until:
  "\<forall>x \<in> set xs. P x \<Longrightarrow> \<not> P y \<Longrightarrow> dropWhile P (xs @ y # ys) = y # ys"
  by (induction xs) auto

lemma isdigit_plain: "isdigit ch \<Longrightarrow> \<not> isspace ch \<and> ch \<noteq> CHR ''-'' \<and> ch \<noteq> CHR ''+''"
  by (auto simp: isdigit_def isspace_def)

lemma extract_string_token:
  assumes "ver \<noteq> []" "\<forall>ch \<in> set ver. \<not> isspace ch"
  shows "extract_string str (istream_on (ver @ CHR '' '' # tail))
           = (ver, istream_on (CHR '' '' # tail))"
proof -
  from assms obtain v vs where v: "ver = v # vs" "\<not> isspace v"
    by (cases ver) auto
  have sp: "\<not> \<not> isspace (CHR '' '')"
    by (simp add: isspace_def)
  from assms(2) have t: "takeWhile (\<lambda>ch. \<not> isspace ch) (ver @ CHR '' '' # tail) = ver"
    and d: "dropWhile (\<lambda>ch. \<not> isspace ch) (ver @ CHR '' '' # tail) = CHR '' '' # tail"
    using sp by (simp_all add: takeWhile_until dropWhile_until)
  have "dropWhile isspace (ver @ CHR '' '' # tail) = ver @ CHR '' '' # tail"
    using v by simp
  with t d show ?thesis
    by (simp add: extract_string_def istream_on_def good_def Let_def)
qed

lemma extract_unsigned_digits:
  assumes "ds \<noteq> []" "\<forall>ch \<in> set ds. isdigit ch" "decimal ds < 2 ^ 32"
  shows "extract_unsigned (istream_on (CHR '' '' # ds @ CHR '' '' # tail))
           = (Some (word_of_int (decimal ds)), istream_on (CHR '' '' # tail))"
proof -
  define buf where "buf = CHR '' '' # ds @ CHR '' '' # tail"
  define num where "num = ds @ CHR '' '' # tail"
  from assms obtain d1 dr where d1: "ds = d1 # dr" "isdigit d1"
    by (cases ds) auto
  then have plain: "\<not> isspace d1" "d1 \<noteq> CHR ''-''" "d1 \<noteq> CHR ''+''"
    using isdigit_plain by blast+
  have nd: "\<not> isdigit (CHR '' '')"
    by (simp add: isdigit_def)
  have sk: "dropWhile isspace buf = num"
    using d1 plain by (simp add: isspace_def buf_def num_def)
  from assms(2) nd have t: "takeWhile isdigit num = ds"
    and d: "dropWhile isdigit num = CHR '' '' # tail"
    by (simp_all add: takeWhile_until dropWhile_until num_def)
  have hd: "hd num = d1" and ne: "num \<noteq> []"
    using d1 by (simp_all add: num_def)
  have "extract_unsigned (istream_on buf)
          = (Some (word_of_int (decimal ds)), istream_on (CHR '' '' # tail))"
    using assms(1,3) plain
    by (simp add: extract_unsigned_def Let_def istream_on_def good_def sk t d hd ne)
  then show ?thesis
    by (simp only: buf_def)
qed

lemma chars_istream_on: "chars (istream_on buf) = buf"
  by (simp add: istream_on_def)

lemma status_line_parsed:
  assumes "\<not> timedout i"
    and "ver \<noteq> []" and "\<forall>ch \<in> set ver. \<not> isspace ch"
    and "ds \<noteq> []" and "\<forall>ch \<in> set ds. isdigit ch" and "decimal ds < 2 ^ 32"
    and "LF \<notin> set msg"
    and "response_buffer c = ver @ '' '' @ ds @ '' '' @ msg @ [CR, LF] @ rest"
  shows "read_response_status no_error i c
           = Inr (i, issue (async_read_until [CR, LF, CR, LF]) (c\<lparr>response_buffer := rest\<rparr>),
                  Some (to_read_response_headers
                          \<lparr>version = ver, status = word_of_int (decimal ds),
                           status_message = trim_copy ('' '' @ msg @ [CR]),
                           headers = [], body = []\<rparr>))"
proof -
  have b: "response_buffer c = ver @ CHR '' '' # ds @ CHR '' '' # msg @ CR # LF # rest"
    using assms(8) by simp
  have 1: "extract_string [] (istream_on (response_buffer c))
             = (ver, istream_on (CHR '' '' # ds @ CHR '' '' # msg @ CR # LF # rest))"
    unfolding b using assms(2,3) by (rule extract_string_token)
  have 2: "extract_unsigned (istream_on (CHR '' '' # ds @ CHR '' '' # msg @ CR # LF # rest))
             = (Some (word_of_int (decimal ds)), istream_on (CHR '' '' # msg @ CR # LF # rest))"
    using assms(4,5,6) by (rule extract_unsigned_digits)
  have "LF \<notin> set (CHR '' '' # msg @ [CR])"
    using assms(7) by (simp add: LF_def CR_def)
  then have "getline [] (istream_on ((CHR '' '' # msg @ [CR]) @ LF # rest))
               = (CHR '' '' # msg @ [CR], istream_on rest)"
    by (rule getline_line)
  then have 3: "getline [] (istream_on (CHR '' '' # msg @ CR # LF # rest))
               = (CHR '' '' # msg @ [CR], istream_on rest)"
    by simp
  show ?thesis
    using assms(1)
    by (simp add: read_response_status_def 1 2 3 new_response_def set_version_def set_status_def
        set_status_message_def chars_istream_on)
qed

lemma read_headers_loop_status:
  "read_headers_loop s res = Inr (s1, res1) \<Longrightarrow> status res1 = status res"
proof (induction s res rule: read_headers_loop.induct)
  case (1 s res)
  obtain header s2 where g: "getline [] s = (header, s2)"
    by (cases "getline [] s")
  show ?case
  proof (cases "failbit s2 \<or> header = [CR]")
    case True
    with g "1.prems" show ?thesis
      by (subst (asm) read_headers_loop.simps) simp
  next
    case False
    with g "1.prems" obtain k v where sp: "split_header header = Inr (k, v)"
      and r: "read_headers_loop s2 (add_header k v res) = Inr (s1, res1)"
      by (subst (asm) read_headers_loop.simps) (auto split: sum.splits)
    from g False sp r "1.IH" have "status res1 = status (add_header k v res)"
      by (auto simp del: read_headers_loop.simps)
    then show ?thesis
      by (simp add: add_header_def)
  qed
qed

lemma set_error_carries_any:
  "terminal (set_error ec i c) = Inr cfg \<Longrightarrow> carries_status st cfg"
  by (auto simp: terminal_def set_error_def and_then_def promise_set_def carries_status_def
      split: promise.splits)

lemma read_response_headers_carries:
  assumes "read_response_headers ec i c res = Inr cfg"
    and "carries_status st (i, c, Some (to_read_response_headers res))"
  shows "carries_status st cfg"
proof (cases "timedout i \<or> ec \<noteq> no_error")
  case True
  with assms(1) show ?thesis
    by (auto simp: read_response_headers_def split: if_splits dest: set_error_carries_any)
next
  case False
  with assms(1) obtain s1 res1
    where l: "read_headers_loop (istream_on (response_buffer c)) res = Inr (s1, res1)"
      and cfg: "cfg = (i, issue async_read (c\<lparr>response_buffer := chars s1\<rparr>),
                       Some (to_read_response_body res1))"
    by (auto simp: read_response_headers_def and_then_def split: sum.splits
        simp del: read_headers_loop.simps)
  from l have "status res1 = status res"
    by (rule read_headers_loop_status)
  with assms(2) cfg show ?thesis
    by (simp add: carries_status_def issue_def)
qed

lemma read_response_body_carries:
  assumes "read_response_body ec n i c res = Inr cfg"
    and "carries_status st (i, c, Some (to_read_response_body res))"
  shows "carries_status st cfg"
proof (cases "timedout i \<or> (ec \<noteq> no_error \<and> ec \<noteq> asio_eof)")
  case True
  with assms(1) show ?thesis
    by (auto simp: read_response_body_def split: if_splits dest: set_error_carries_any)
next
  case False
  with assms show ?thesis
    by (auto simp: read_response_body_def carries_status_def terminal_def and_then_def
        promise_set_def progress_def issue_def append_lines_all Let_def
        simp del: append_lines.simps split: if_splits promise.splits)
qed

lemma deliver_carries:
  assumes "deliver ser ev cfg = Inr cfg1" and "carries_status st cfg"
  shows "carries_status st cfg1"
proof (cases "(ser, ev, cfg)" rule: deliver.cases)
  case (1 ser ec i c p)
  with assms show ?thesis
    by (auto simp: carries_status_def timeout_def issue_def split: if_splits)
next
  case (7 ser ec bytes i c res)
  with assms have "carries_status st (i, commit bytes c, Some (to_read_response_headers res))"
    by (simp add: carries_status_def commit_def)
  with 7 assms(1) show ?thesis
    by (auto dest: read_response_headers_carries)
next
  case (8 ser ec bytes i c res)
  with assms have "carries_status st (i, commit bytes c, Some (to_read_response_body res))"
    by (simp add: carries_status_def commit_def)
  with 8 assms(1) show ?thesis
    by (auto dest: read_response_body_carries)
qed (use assms in \<open>auto simp: carries_status_def\<close>)

lemma run_carries:
  "run ser evs cfg = Inr cfg1 \<Longrightarrow> carries_status st cfg \<Longrightarrow> carries_status st cfg1"
proof (induction evs arbitrary: cfg)
  case Nil
  then show ?case by simp
next
  case (Cons ev evs)
  then obtain cfg2 where d: "deliver ser ev cfg = Inr cfg2"
    and r: "run ser evs cfg2 = Inr cfg1"
    by (auto split: sum.splits)
  from d Cons.prems(2) have "carries_status st cfg2"
    by (rule deliver_carries)
  with r show ?case
    by (rule Cons.IH)
qed

text \<open>
  C8, amended: the status code of a delivered response is the number that the status line
  has as its second token, whatever it is. For a status line made of a version token,
  a space, decimal digits of a number below \<open>2^32\<close>, a space and a reason,
  \<open>read_response_status\<close> hands a response with that number as its status to the
  header stage, and every response that reaches the promise afterwards has that status;
  no test against the range from 100 to 599 is made.
\<close>

theorem delivered_status_is_parsed_number:
  assumes "ver \<noteq> []" and "\<forall>ch \<in> set ver. \<not> isspace ch"
    and "ds \<noteq> []" and "\<forall>ch \<in> set ds. isdigit ch" and "decimal ds < 2 ^ 32"
    and "LF \<notin> set msg"
    and "response_buffer c = []" and "response_promise c = Unset"
  shows "(\<not> timedout i \<longrightarrow>
            deliver ser (read_until_done no_error (ver @ '' '' @ ds @ '' '' @ msg @ [CR, LF] @ rest))
              (i, c, Some to_read_response_status)
            = Inr (i, issue (async_read_until [CR, LF, CR, LF]) (c\<lparr>response_buffer := rest\<rparr>),
                   Some (to_read_response_headers
                           \<lparr>version = ver, status = word_of_int (decimal ds),
                            status_message = trim_copy ('' '' @ msg @ [CR]),
                            headers = [], body = []\<rparr>)))
       \<and> (run ser (read_until_done no_error (ver @ '' '' @ ds @ '' '' @ msg @ [CR, LF] @ rest) # evs)
              (i, c, Some to_read_response_status) = Inr (i1, c1, p1)
            \<and> response_promise c1 = Value r
          \<longrightarrow> status r = word_of_int (decimal ds))"
proof (intro conjI impI)
  let ?line = "ver @ '' '' @ ds @ '' '' @ msg @ [CR, LF] @ rest"
  let ?first = "deliver ser (read_until_done no_error ?line) (i, c, Some to_read_response_status)"
  let ?parsed = "Inr (i, issue (async_read_until [CR, LF, CR, LF]) (c\<lparr>response_buffer := rest\<rparr>),
                   Some (to_read_response_headers
                           \<lparr>version = ver, status = word_of_int (decimal ds),
                            status_message = trim_copy ('' '' @ msg @ [CR]),
                            headers = [], body = []\<rparr>))"
  have parsed: "?first = ?parsed" if "\<not> timedout i"
  proof -
    have "response_buffer (commit ?line c) = ?line"
      using assms(7) by (simp add: commit_def)
    with that assms(1-6)
    have "read_response_status no_error i (commit ?line c)
            = Inr (i, issue (async_read_until [CR, LF, CR, LF])
                        ((commit ?line c)\<lparr>response_buffer := rest\<rparr>),
                   Some (to_read_response_headers
                           \<lparr>version = ver, status = word_of_int (decimal ds),
                            status_message = trim_copy ('' '' @ msg @ [CR]),
                            headers = [], body = []\<rparr>))"
      by (intro status_line_parsed)
    then show ?thesis
      by (simp add: commit_def)
  qed
  then show "?first = ?parsed" if "\<not> timedout i"
    using that by simp
  assume a: "run ser (read_until_done no_error ?line # evs) (i, c, Some to_read_response_status)
               = Inr (i1, c1, p1) \<and> response_promise c1 = Value r"
  then obtain cfg where d: "?first = Inr cfg" and r: "run ser evs cfg = Inr (i1, c1, p1)"
    by (auto split: sum.splits simp del: deliver.simps)
  have "carries_status (word_of_int (decimal ds)) cfg"
  proof (cases "timedout i")
    case True
    with d have "terminal (set_error asio_timed_out i (commit ?line c)) = Inr cfg"
      by (simp add: read_response_status_def)
    then show ?thesis
      by (rule set_error_carries_any)
  next
    case False
    with parsed d assms(8) show ?thesis
      by (auto simp: carries_status_def issue_def)
  qed
  with r have "carries_status (word_of_int (decimal ds)) (i1, c1, p1)"
    by (rule run_carries)
  with a show "status r = word_of_int (decimal ds)"
    by (simp add: carries_status_def)
qed

text \<open>The status line \<open>HTTP/1.1 999 Nope\<close>, no header, an empty body.\<close>

theorem delivered_status_is_parsed_number_witness:
  "\<not> timedout example_impl
   \<and> run serialize_head
         [read_until_done no_error (''HTTP/1.1'' @ '' '' @ ''999'' @ '' '' @ ''Nope'' @ [CR, LF] @ []),
          read_until_done no_error [CR, LF], read_done asio_eof []]
         (example_impl, example_context, Some to_read_response_status)
       = Inr (example_impl\<lparr>timer_cancels := 1\<rparr>,
              example_context
                \<lparr>connection := [async_read_until [CR, LF, CR, LF], async_read],
                 progress_calls := [(bytes_read, 0)],
                 response_promise := Value \<lparr>version = ''HTTP/1.1'', status = 999,
                   status_message = ''Nope'', headers = [], body = []\<rparr>\<rparr>,
              None)
   \<and> status \<lparr>version = ''HTTP/1.1'', status = 999, status_message = ''Nope'', headers = [],
              body = []\<rparr> = word_of_int (decimal ''999'')
   \<and> \<not> (status \<lparr>version = ''HTTP/1.1'', status = 999, status_message = ''Nope'', headers = [],
                 body = []\<rparr> \<le> 599)"
  using delivered_status_is_parsed_number [of "''HTTP/1.1''" "''999''" "''Nope''" example_context
      example_impl serialize_head "[]"
      "[read_until_done no_error [CR, LF], read_done asio_eof []]"
      "example_impl\<lparr>timer_cancels := 1\<rparr>"
      "example_context
                \<lparr>connection := [async_read_until [CR, LF, CR, LF], async_read],
                 progress_calls := [(bytes_read, 0)],
                 response_promise := Value \<lparr>version = ''HTTP/1.1'', status = 999,
                   status_message = ''Nope'', headers = [], body = []\<rparr>\<rparr>"
      None
      "\<lparr>version = ''HTTP/1.1'', status = 999, status_message = ''Nope'', headers = [],
              body = []\<rparr>"]
  by (simp add: example_defs value_defs handler_defs)

end
